theory Spec2Isabelle
  imports Main
begin

section \<open>Data model\<close>

text \<open>
  The program is \<^verbatim>\<open>asociatividad.py\<close>: a lexer, a recursive-descent parser and a
  tree-walking interpreter for arithmetic and assignment expressions.

  \<^verbatim>\<open>TokenType\<close> (source lines 7-19) is the enum of token kinds.
\<close>

datatype TokenType = NUMBER | PLUS | MINUS | MULTIPLY | DIVIDE | POWER | ASSIGN
  | LPAREN | RPAREN | IDENTIFIER | EOF

text \<open>
  The Python values that flow through the program. A token's value is a number
  (\<^verbatim>\<open>NUMBER\<close>), a string (identifiers and operators) or \<^verbatim>\<open>None\<close> (\<^verbatim>\<open>EOF\<close>); the
  interpreter computes numbers. Integers are Python's unbounded ints. Every other number
  (a float, or a complex number that \<^verbatim>\<open>**\<close> can produce) is a value of the type
  parameter \<open>'x\<close>: its arithmetic is Python's own and is taken as a parameter, see
  \<open>Host\<close> below.
\<close>

datatype 'x pyval = PyInt int | PyStr string | PyNone | PyHost 'x

text \<open>
  \<^verbatim>\<open>Token\<close> (lines 22-27): a dataclass with fields \<^verbatim>\<open>type\<close>, \<^verbatim>\<open>value\<close> and
  \<^verbatim>\<open>position\<close> (default 0; the lexer never passes it). The field \<^verbatim>\<open>value\<close> is
  named \<open>val\<close> here.
\<close>

record 'x Token =
  type :: TokenType
  val :: "'x pyval"
  position :: nat

definition Token :: "TokenType \<Rightarrow> 'x pyval \<Rightarrow> 'x Token" where
  "Token t v = \<lparr>type = t, val = v, position = 0\<rparr>"

text \<open>
  The exceptions the program can raise, as values. The lexer and the parser raise a plain
  \<^verbatim>\<open>Exception\<close> with a message; \<open>LexError\<close> carries the position of the message
  "Caracter invalido en posicion pos" (line 39) and \<open>ParseError\<close> the token of the message
  "Token inesperado: token" (line 184). \<open>ValueError\<close> is what \<^verbatim>\<open>int\<close> and
  \<^verbatim>\<open>float\<close> raise on a text they reject (line 61), \<open>NameError\<close> is raised by
  \<^verbatim>\<open>visit_Var\<close> (line 336) with the variable's name, \<open>NoVisitor\<close> is the
  \<^verbatim>\<open>Exception\<close> of the dispatcher (line 350), \<open>AttributeError\<close> is the failing
  attribute access \<^verbatim>\<open>node.left.value\<close> (line 340). The remaining ones are raised by
  Python's arithmetic.
\<close>

datatype 'x error =
    LexError nat
  | ParseError "'x Token"
  | ValueError string
  | NameError "'x pyval"
  | AttributeError
  | NoVisitor
  | ZeroDivisionError
  | TypeError
  | OverflowError

text \<open>
  Python's own arithmetic outside the exact integers is not code of this program. It is a
  parameter of the model: \<open>py_float\<close> is \<^verbatim>\<open>float(text)\<close> (\<open>None\<close> when it raises
  \<^verbatim>\<open>ValueError\<close>), \<open>host_binop\<close> and \<open>host_unop\<close> are the binary and unary operators
  on operands that are not both (or not) ints, and on ints where the result is not an
  int (true division, a negative exponent). They are functions: Python's arithmetic on
  immutable numbers has no effect on the program's state.
\<close>

record 'x Host =
  py_float :: "string \<Rightarrow> 'x option"
  host_binop :: "TokenType \<Rightarrow> 'x pyval \<Rightarrow> 'x pyval \<Rightarrow> 'x error + 'x pyval"
  host_unop :: "TokenType \<Rightarrow> 'x pyval \<Rightarrow> 'x error + 'x pyval"

text \<open>
  A host without floats, for closed evaluation of programs that stay inside exact integer
  arithmetic: no such run reaches a host operation.
\<close>

definition int_host :: "unit Host" where
  "int_host = \<lparr>py_float = (\<lambda>_. None), host_binop = (\<lambda>_ _ _. Inl TypeError),
     host_unop = (\<lambda>_ _. Inl TypeError)\<rparr>"


section \<open>Lexer\<close>

text \<open>
  Characters are the code points U+0000 to U+00FF, one \<open>char\<close> each; the character
  classes are those of Python's \<^verbatim>\<open>str.isspace\<close>, \<^verbatim>\<open>str.isdigit\<close>,
  \<^verbatim>\<open>str.isalpha\<close> and \<^verbatim>\<open>str.isalnum\<close> on that range. \<open>isdecimal\<close> is the class
  of the ASCII digits, the only characters of the range that \<^verbatim>\<open>int\<close> accepts.
\<close>

definition isspace :: "char \<Rightarrow> bool" where
  "isspace c \<longleftrightarrow>
     (of_char c :: nat) \<in> {9, 10, 11, 12, 13, 28, 29, 30, 31, 32, 133, 160}"

definition isdigit :: "char \<Rightarrow> bool" where
  "isdigit c \<longleftrightarrow>
     (48 \<le> (of_char c :: nat) \<and> (of_char c :: nat) \<le> 57)
     \<or> (of_char c :: nat) \<in> {178, 179, 185}"

definition isalpha :: "char \<Rightarrow> bool" where
  "isalpha c \<longleftrightarrow>
     (65 \<le> (of_char c :: nat) \<and> (of_char c :: nat) \<le> 90)
     \<or> (97 \<le> (of_char c :: nat) \<and> (of_char c :: nat) \<le> 122)
     \<or> (of_char c :: nat) \<in> {170, 181, 186}
     \<or> (192 \<le> (of_char c :: nat) \<and> (of_char c :: nat) \<le> 214)
     \<or> (216 \<le> (of_char c :: nat) \<and> (of_char c :: nat) \<le> 246)
     \<or> (248 \<le> (of_char c :: nat) \<and> (of_char c :: nat) \<le> 255)"

definition isalnum :: "char \<Rightarrow> bool" where
  "isalnum c \<longleftrightarrow> isalpha c \<or> isdigit c \<or> (of_char c :: nat) \<in> {188, 189, 190}"

definition isdecimal :: "char \<Rightarrow> bool" where
  "isdecimal c \<longleftrightarrow> 48 \<le> (of_char c :: nat) \<and> (of_char c :: nat) \<le> 57"

text \<open>
  \<^verbatim>\<open>int(result)\<close> on the texts \<^verbatim>\<open>number\<close> builds without a dot: characters of
  class \<open>isdigit\<close>. It is the decimal value when all are ASCII digits and raises
  \<^verbatim>\<open>ValueError\<close> otherwise (a superscript digit). The interpreter's optional limit on
  the number of digits of such a text is not modelled.
\<close>

definition int_value :: "string \<Rightarrow> int" where
  "int_value s = foldl (\<lambda>acc c. 10 * acc + (int (of_char c) - 48)) 0 s"

definition py_int :: "string \<Rightarrow> int option" where
  "py_int s = (if s \<noteq> [] \<and> list_all isdecimal s then Some (int_value s) else None)"

text \<open>
  \<^verbatim>\<open>Lexer\<close> (lines 30-118). The state is the cursor: \<open>rest\<close> is
  \<^verbatim>\<open>self.text[self.pos:]\<close> and \<open>pos\<close> is \<^verbatim>\<open>self.pos\<close>; \<^verbatim>\<open>self.current_char\<close>
  is the head of \<open>rest\<close>, or \<^verbatim>\<open>None\<close> at the end of the text.
\<close>

record Lexer =
  rest :: string
  pos :: nat

definition Lexer :: "string \<Rightarrow> Lexer" where
  "Lexer txt = \<lparr>rest = txt, pos = 0\<rparr>"

definition current_char :: "Lexer \<Rightarrow> char option" where
  "current_char l = (case rest l of [] \<Rightarrow> None | c # _ \<Rightarrow> Some c)"

definition advance :: "Lexer \<Rightarrow> Lexer" where
  "advance l = \<lparr>rest = tl (rest l), pos = pos l + 1\<rparr>"

function skip_whitespace :: "Lexer \<Rightarrow> Lexer" where
  "skip_whitespace l =
     (case current_char l of
        None \<Rightarrow> l
      | Some c \<Rightarrow> if isspace c then skip_whitespace (advance l) else l)"
  by pat_completeness auto
termination
  by (relation "measure (\<lambda>l. length (rest l))")
     (auto simp: current_char_def advance_def split: list.splits)

text \<open>The loop of \<^verbatim>\<open>number\<close> (lines 56-60), with the text read so far.\<close>

function number_scan :: "Lexer \<Rightarrow> string \<Rightarrow> string \<times> Lexer" where
  "number_scan l result =
     (case current_char l of
        None \<Rightarrow> (result, l)
      | Some c \<Rightarrow> if isdigit c \<or> c = CHR ''.''
                  then number_scan (advance l) (result @ [c]) else (result, l))"
  by pat_completeness auto
termination
  by (relation "measure (\<lambda>(l, r). length (rest l))")
     (auto simp: current_char_def advance_def split: list.splits)

definition number :: "'x Host \<Rightarrow> Lexer \<Rightarrow> 'x error + ('x pyval \<times> Lexer)" where
  "number h l =
     (case number_scan l [] of (result, l') \<Rightarrow>
        if CHR ''.'' \<in> set result
        then (case py_float h result of
                None \<Rightarrow> Inl (ValueError result)
              | Some x \<Rightarrow> Inr (PyHost x, l'))
        else (case py_int result of
                None \<Rightarrow> Inl (ValueError result)
              | Some n \<Rightarrow> Inr (PyInt n, l')))"

text \<open>
  The loop of \<^verbatim>\<open>identifier\<close> (lines 65-69); the method itself is \<open>identifier_name\<close>.
\<close>

function identifier_scan :: "Lexer \<Rightarrow> string \<Rightarrow> string \<times> Lexer" where
  "identifier_scan l result =
     (case current_char l of
        None \<Rightarrow> (result, l)
      | Some c \<Rightarrow> if isalnum c \<or> c = CHR ''_''
                  then identifier_scan (advance l) (result @ [c]) else (result, l))"
  by pat_completeness auto
termination
  by (relation "measure (\<lambda>(l, r). length (rest l))")
     (auto simp: current_char_def advance_def split: list.splits)

definition identifier_name :: "Lexer \<Rightarrow> string \<times> Lexer" where
  "identifier_name l = identifier_scan l []"

declare skip_whitespace.simps [simp del] number_scan.simps [simp del]
  identifier_scan.simps [simp del]

lemma skip_whitespace_length: "length (rest (skip_whitespace l)) \<le> length (rest l)"
proof (induction l rule: skip_whitespace.induct)
  case (1 l)
  show ?case
  proof (cases "rest l")
    case Nil
    then show ?thesis by (simp add: skip_whitespace.simps [of l] current_char_def)
  next
    case (Cons c cs)
    show ?thesis
    proof (cases "isspace c")
      case True
      with Cons 1 have "length (rest (skip_whitespace (advance l))) \<le> length (rest (advance l))"
        by (simp add: current_char_def)
      with Cons True show ?thesis
        by (simp add: skip_whitespace.simps [of l] current_char_def advance_def)
    next
      case False
      with Cons show ?thesis by (simp add: skip_whitespace.simps [of l] current_char_def)
    qed
  qed
qed

lemma skip_whitespace_shorter:
  "current_char l = Some c \<Longrightarrow> isspace c \<Longrightarrow>
     length (rest (skip_whitespace l)) < length (rest l)"
  using skip_whitespace_length [of "advance l"]
  by (cases "rest l") (auto simp: skip_whitespace.simps [of l] current_char_def advance_def)

text \<open>
  \<^verbatim>\<open>get_next_token\<close> (lines 72-118). The \<^verbatim>\<open>continue\<close> after
  \<^verbatim>\<open>skip_whitespace\<close> is the recursive call. A failure leaves no lexer behind: the
  callers build a new lexer for every text.
\<close>

function get_next_token :: "'x Host \<Rightarrow> Lexer \<Rightarrow> 'x error + ('x Token \<times> Lexer)" where
  "get_next_token h l =
     (case current_char l of
        None \<Rightarrow> Inr (Token EOF PyNone, l)
      | Some c \<Rightarrow>
          if isspace c then get_next_token h (skip_whitespace l)
          else if isdigit c then
            (case number h l of
               Inl e \<Rightarrow> Inl e
             | Inr (v, l') \<Rightarrow> Inr (Token NUMBER v, l'))
          else if isalpha c \<or> c = CHR ''_'' then
            (case identifier_name l of (s, l') \<Rightarrow> Inr (Token IDENTIFIER (PyStr s), l'))
          else if c = CHR ''+'' then Inr (Token PLUS (PyStr ''+''), advance l)
          else if c = CHR ''-'' then Inr (Token MINUS (PyStr ''-''), advance l)
          else if c = CHR ''*'' then
            (if current_char (advance l) = Some (CHR ''*'')
             then Inr (Token POWER (PyStr ''**''), advance (advance l))
             else Inr (Token MULTIPLY (PyStr ''*''), advance l))
          else if c = CHR ''/'' then Inr (Token DIVIDE (PyStr ''/''), advance l)
          else if c = CHR ''='' then Inr (Token ASSIGN (PyStr ''=''), advance l)
          else if c = CHR ''('' then Inr (Token LPAREN (PyStr ''(''), advance l)
          else if c = CHR '')'' then Inr (Token RPAREN (PyStr '')''), advance l)
          else Inl (LexError (pos l)))"
  by pat_completeness auto
termination
  by (relation "measure (\<lambda>(h, l). length (rest l))")
     (auto simp: skip_whitespace_shorter)

declare get_next_token.simps [simp del]


section \<open>Abstract syntax and parser\<close>

text \<open>
  The AST classes (lines 121-172). The dataclasses annotate \<^verbatim>\<open>Assign.left\<close> as a
  \<^verbatim>\<open>Var\<close>, but Python does not enforce an annotation: any node can stand there.
  \<open>ASTNode\<close> is an instance of the base class itself.
\<close>

datatype 'x ASTNode =
    BinaryOp "'x ASTNode" "'x Token" "'x ASTNode"
  | UnaryOp "'x Token" "'x ASTNode"
  | Num "'x pyval"
  | Var "'x pyval"
  | Assign "'x ASTNode" "'x ASTNode"
  | ASTNode

text \<open>
  \<^verbatim>\<open>Parser\<close> (lines 175-297): the lexer and the current token. (The field
  \<^verbatim>\<open>variables\<close> of the class is never read or written after construction.) The
  constructor pulls the first token and can fail with the lexer's error.
\<close>

record 'x Parser =
  lexer :: Lexer
  current_token :: "'x Token"

definition Parser :: "'x Host \<Rightarrow> Lexer \<Rightarrow> 'x error + 'x Parser" where
  "Parser h l =
     (case get_next_token h l of
        Inl e \<Rightarrow> Inl e
      | Inr (tok, l') \<Rightarrow> Inr \<lparr>lexer = l', current_token = tok\<rparr>)"

definition eat :: "'x Host \<Rightarrow> 'x Parser \<Rightarrow> TokenType \<Rightarrow> 'x error + 'x Parser" where
  "eat h p token_type =
     (if type (current_token p) = token_type
      then (case get_next_token h (lexer p) of
              Inl e \<Rightarrow> Inl e
            | Inr (tok, l') \<Rightarrow> Inr \<lparr>lexer = l', current_token = tok\<rparr>)
      else Inl (ParseError (current_token p)))"

definition isinstance_Var :: "'x ASTNode \<Rightarrow> bool" where
  "isinstance_Var node = (case node of Var _ \<Rightarrow> True | _ \<Rightarrow> False)"

text \<open>
  The grammar rules (lines 193-293). Each returns the node and the parser after it, or
  the error raised. \<^verbatim>\<open>power\<close> and \<^verbatim>\<open>term\<close> are \<open>power_rule\<close> and \<open>term_rule\<close>;
  \<open>term_loop\<close> and \<open>expr_loop\<close> are the \<^verbatim>\<open>while\<close> loops of \<^verbatim>\<open>term\<close> and
  \<^verbatim>\<open>expr\<close>, with the node built so far. The recursion is as deep as the text needs:
  the limit Python puts on the depth of its call stack is not modelled, here or in the
  interpreter.
\<close>

function factor :: "'x Host \<Rightarrow> 'x Parser \<Rightarrow> 'x error + ('x ASTNode \<times> 'x Parser)"
  and power_rule :: "'x Host \<Rightarrow> 'x Parser \<Rightarrow> 'x error + ('x ASTNode \<times> 'x Parser)"
  and term_rule :: "'x Host \<Rightarrow> 'x Parser \<Rightarrow> 'x error + ('x ASTNode \<times> 'x Parser)"
  and term_loop ::
    "'x Host \<Rightarrow> 'x ASTNode \<Rightarrow> 'x Parser \<Rightarrow> 'x error + ('x ASTNode \<times> 'x Parser)"
  and expr :: "'x Host \<Rightarrow> 'x Parser \<Rightarrow> 'x error + ('x ASTNode \<times> 'x Parser)"
  and expr_loop ::
    "'x Host \<Rightarrow> 'x ASTNode \<Rightarrow> 'x Parser \<Rightarrow> 'x error + ('x ASTNode \<times> 'x Parser)"
  and assignment :: "'x Host \<Rightarrow> 'x Parser \<Rightarrow> 'x error + ('x ASTNode \<times> 'x Parser)"
where
  "factor h p =
     (if type (current_token p) = PLUS then
        (case eat h p PLUS of
           Inl e \<Rightarrow> Inl e
         | Inr p1 \<Rightarrow>
             (case factor h p1 of
                Inl e \<Rightarrow> Inl e
              | Inr (node, p2) \<Rightarrow> Inr (UnaryOp (current_token p) node, p2)))
      else if type (current_token p) = MINUS then
        (case eat h p MINUS of
           Inl e \<Rightarrow> Inl e
         | Inr p1 \<Rightarrow>
             (case factor h p1 of
                Inl e \<Rightarrow> Inl e
              | Inr (node, p2) \<Rightarrow> Inr (UnaryOp (current_token p) node, p2)))
      else if type (current_token p) = NUMBER then
        (case eat h p NUMBER of
           Inl e \<Rightarrow> Inl e
         | Inr p1 \<Rightarrow> Inr (Num (val (current_token p)), p1))
      else if type (current_token p) = IDENTIFIER then
        (case eat h p IDENTIFIER of
           Inl e \<Rightarrow> Inl e
         | Inr p1 \<Rightarrow> Inr (Var (val (current_token p)), p1))
      else if type (current_token p) = LPAREN then
        (case eat h p LPAREN of
           Inl e \<Rightarrow> Inl e
         | Inr p1 \<Rightarrow>
             (case expr h p1 of
                Inl e \<Rightarrow> Inl e
              | Inr (node, p2) \<Rightarrow>
                  (case eat h p2 RPAREN of
                     Inl e \<Rightarrow> Inl e
                   | Inr p3 \<Rightarrow> Inr (node, p3))))
      else Inl (ParseError (current_token p)))"
| "power_rule h p =
     (case factor h p of
        Inl e \<Rightarrow> Inl e
      | Inr (node, p1) \<Rightarrow>
          if type (current_token p1) = POWER then
            (case eat h p1 POWER of
               Inl e \<Rightarrow> Inl e
             | Inr p2 \<Rightarrow>
                 (case power_rule h p2 of
                    Inl e \<Rightarrow> Inl e
                  | Inr (r, p3) \<Rightarrow> Inr (BinaryOp node (current_token p1) r, p3)))
          else Inr (node, p1))"
| "term_rule h p =
     (case power_rule h p of
        Inl e \<Rightarrow> Inl e
      | Inr (node, p1) \<Rightarrow> term_loop h node p1)"
| "term_loop h node p =
     (if type (current_token p) = MULTIPLY \<or> type (current_token p) = DIVIDE then
        (case (if type (current_token p) = MULTIPLY then eat h p MULTIPLY
               else eat h p DIVIDE) of
           Inl e \<Rightarrow> Inl e
         | Inr p1 \<Rightarrow>
             (case power_rule h p1 of
                Inl e \<Rightarrow> Inl e
              | Inr (r, p2) \<Rightarrow> term_loop h (BinaryOp node (current_token p) r) p2))
      else Inr (node, p))"
| "expr h p =
     (case term_rule h p of
        Inl e \<Rightarrow> Inl e
      | Inr (node, p1) \<Rightarrow> expr_loop h node p1)"
| "expr_loop h node p =
     (if type (current_token p) = PLUS \<or> type (current_token p) = MINUS then
        (case (if type (current_token p) = PLUS then eat h p PLUS
               else eat h p MINUS) of
           Inl e \<Rightarrow> Inl e
         | Inr p1 \<Rightarrow>
             (case term_rule h p1 of
                Inl e \<Rightarrow> Inl e
              | Inr (r, p2) \<Rightarrow> expr_loop h (BinaryOp node (current_token p) r) p2))
      else Inr (node, p))"
| "assignment h p =
     (case expr h p of
        Inl e \<Rightarrow> Inl e
      | Inr (node, p1) \<Rightarrow>
          if isinstance_Var node \<and> type (current_token p1) = ASSIGN then
            (case eat h p1 ASSIGN of
               Inl e \<Rightarrow> Inl e
             | Inr p2 \<Rightarrow>
                 (case assignment h p2 of
                    Inl e \<Rightarrow> Inl e
                  | Inr (r, p3) \<Rightarrow> Inr (Assign node r, p3)))
          else Inr (node, p1))"
  by pat_completeness auto

text \<open>
  Termination: the number of tokens still to come, counted as the characters the lexer
  has not read plus the current token unless it is \<open>EOF\<close>, never grows along a rule and
  shrinks whenever a token is eaten.
\<close>

definition psize :: "'x Parser \<Rightarrow> nat" where
  "psize p = length (rest (lexer p)) + (if type (current_token p) = EOF then 0 else 1)"

lemma Token_sel [simp]:
  "type (Token t v) = t" "val (Token t v) = v" "position (Token t v) = 0"
  by (simp_all add: Token_def)

lemma number_scan_length:
  "number_scan l r = (res, l') \<Longrightarrow> length (rest l') \<le> length (rest l)"
proof (induction l r rule: number_scan.induct)
  case (1 l result)
  show ?case
  proof (cases "rest l")
    case Nil
    with 1(2) show ?thesis by (simp add: number_scan.simps [of l] current_char_def)
  next
    case (Cons c cs)
    show ?thesis
    proof (cases "isdigit c \<or> c = CHR ''.''")
      case True
      with Cons 1(2) have "number_scan (advance l) (result @ [c]) = (res, l')"
        by (simp add: number_scan.simps [of l] current_char_def)
      with 1(1) [of c] Cons True have "length (rest l') \<le> length (rest (advance l))"
        by (simp add: current_char_def)
      then show ?thesis by (simp add: advance_def)
    next
      case False
      with Cons 1(2) show ?thesis by (simp add: number_scan.simps [of l] current_char_def)
    qed
  qed
qed

lemma number_scan_shorter:
  assumes "current_char l = Some c" "isdigit c" "number_scan l r = (res, l')"
  shows "length (rest l') < length (rest l)"
proof -
  from assms have "number_scan (advance l) (r @ [c]) = (res, l')"
    by (simp add: number_scan.simps [of l])
  then have "length (rest l') \<le> length (rest (advance l))" by (rule number_scan_length)
  with assms(1) show ?thesis
    by (cases "rest l") (auto simp: advance_def current_char_def)
qed

lemma identifier_scan_length:
  "identifier_scan l r = (res, l') \<Longrightarrow> length (rest l') \<le> length (rest l)"
proof (induction l r rule: identifier_scan.induct)
  case (1 l result)
  show ?case
  proof (cases "rest l")
    case Nil
    with 1(2) show ?thesis by (simp add: identifier_scan.simps [of l] current_char_def)
  next
    case (Cons c cs)
    show ?thesis
    proof (cases "isalnum c \<or> c = CHR ''_''")
      case True
      with Cons 1(2) have "identifier_scan (advance l) (result @ [c]) = (res, l')"
        by (simp add: identifier_scan.simps [of l] current_char_def)
      with 1(1) [of c] Cons True have "length (rest l') \<le> length (rest (advance l))"
        by (simp add: current_char_def)
      then show ?thesis by (simp add: advance_def)
    next
      case False
      with Cons 1(2) show ?thesis
        by (simp add: identifier_scan.simps [of l] current_char_def)
    qed
  qed
qed

lemma isalpha_isalnum: "isalpha c \<Longrightarrow> isalnum c"
  by (simp add: isalnum_def)

lemma identifier_scan_shorter:
  assumes "current_char l = Some c" "isalpha c \<or> c = CHR ''_''"
    "identifier_scan l r = (res, l')"
  shows "length (rest l') < length (rest l)"
proof -
  from assms have "identifier_scan (advance l) (r @ [c]) = (res, l')"
    by (auto simp: identifier_scan.simps [of l] isalpha_isalnum)
  then have "length (rest l') \<le> length (rest (advance l))"
    by (rule identifier_scan_length)
  with assms(1) show ?thesis
    by (cases "rest l") (auto simp: advance_def current_char_def)
qed

lemma advance_shorter:
  "current_char l = Some c \<Longrightarrow> length (rest (advance l)) < length (rest l)"
  by (cases "rest l") (auto simp: advance_def current_char_def)

lemma advance_le: "length (rest (advance l)) \<le> length (rest l)"
  by (cases "rest l") (auto simp: advance_def)

lemma get_next_token_size:
  "get_next_token h l = Inr (tok, l') \<Longrightarrow>
     length (rest l') + (if type tok = EOF then 0 else 1) \<le> length (rest l)"
proof (induction h l rule: get_next_token.induct)
  case (1 h l)
  show ?case
  proof (cases "current_char l")
    case None
    with 1(2) show ?thesis by (auto simp: get_next_token.simps [of h l])
  next
    case (Some c)
    show ?thesis
    proof (cases "isspace c")
      case True
      with Some 1(2) have "get_next_token h (skip_whitespace l) = Inr (tok, l')"
        by (simp add: get_next_token.simps [of h l])
      with 1(1) [OF Some True]
      have "length (rest l') + (if type tok = EOF then 0 else 1)
              \<le> length (rest (skip_whitespace l))" .
      with skip_whitespace_length [of l] show ?thesis by simp
    next
      case False
      note ns = False
      show ?thesis
      proof (cases "isdigit c")
        case True
        with Some ns 1(2) obtain v where "number h l = Inr (v, l')"
          by (auto simp: get_next_token.simps [of h l] split: sum.splits)
        then obtain res where "number_scan l [] = (res, l')"
          by (auto simp: number_def split: prod.splits if_splits option.splits)
        from number_scan_shorter [OF Some True this] show ?thesis by simp
      next
        case False
        note nd = False
        show ?thesis
        proof (cases "isalpha c \<or> c = CHR ''_''")
          case True
          with Some ns nd 1(2) obtain s where "identifier_scan l [] = (s, l')"
            by (auto simp: get_next_token.simps [of h l] identifier_name_def
                split: prod.splits)
          from identifier_scan_shorter [OF Some True this] show ?thesis by simp
        next
          case False
          with Some ns nd 1(2) advance_shorter [OF Some] advance_le [of "advance l"]
          show ?thesis
            by (auto simp: get_next_token.simps [of h l] split: if_splits)
        qed
      qed
    qed
  qed
qed

lemma eat_size:
  "eat h p t = Inr p' \<Longrightarrow> t \<noteq> EOF \<Longrightarrow> psize p' < psize p"
  by (auto simp: eat_def psize_def split: if_splits sum.splits dest!: get_next_token_size)

abbreviation (input) parser_dom where
  "parser_dom \<equiv> factor_power_rule_term_rule_term_loop_expr_expr_loop_assignment_dom"

lemma parser_size_partial:
  shows "parser_dom (Inl (Inl (h, p))) \<Longrightarrow>
           (\<forall>n p'. factor h p = Inr (n, p') \<longrightarrow> psize p' \<le> psize p)"
    and "parser_dom (Inl (Inr (Inl (h, p)))) \<Longrightarrow>
           (\<forall>n p'. power_rule h p = Inr (n, p') \<longrightarrow> psize p' \<le> psize p)"
    and "parser_dom (Inl (Inr (Inr (h, p)))) \<Longrightarrow>
           (\<forall>n p'. term_rule h p = Inr (n, p') \<longrightarrow> psize p' \<le> psize p)"
    and "parser_dom (Inr (Inl (Inl (h, node, p)))) \<Longrightarrow>
           (\<forall>n p'. term_loop h node p = Inr (n, p') \<longrightarrow> psize p' \<le> psize p)"
    and "parser_dom (Inr (Inl (Inr (h, p)))) \<Longrightarrow>
           (\<forall>n p'. expr h p = Inr (n, p') \<longrightarrow> psize p' \<le> psize p)"
    and "parser_dom (Inr (Inr (Inl (h, node, p)))) \<Longrightarrow>
           (\<forall>n p'. expr_loop h node p = Inr (n, p') \<longrightarrow> psize p' \<le> psize p)"
    and "parser_dom (Inr (Inr (Inr (h, p)))) \<Longrightarrow>
           (\<forall>n p'. assignment h p = Inr (n, p') \<longrightarrow> psize p' \<le> psize p)"
proof (induct rule: factor_power_rule_term_rule_term_loop_expr_expr_loop_assignment.pinduct)
  case (1 h p)
  show ?case
    unfolding factor.psimps [OF 1(1)] using 1(2-)
    by (fastforce split: if_splits sum.splits prod.splits dest: eat_size)
next
  case (2 h p)
  show ?case
    unfolding power_rule.psimps [OF 2(1)] using 2(2-)
    by (fastforce split: if_splits sum.splits prod.splits dest: eat_size)
next
  case (3 h p)
  show ?case
    unfolding term_rule.psimps [OF 3(1)] using 3(2-)
    by (fastforce split: if_splits sum.splits prod.splits dest: eat_size)
next
  case (4 h node p)
  show ?case
    unfolding term_loop.psimps [OF 4(1)] using 4(2-)
    by (fastforce split: if_splits sum.splits prod.splits dest: eat_size)
next
  case (5 h p)
  show ?case
    unfolding expr.psimps [OF 5(1)] using 5(2-)
    by (fastforce split: if_splits sum.splits prod.splits dest: eat_size)
next
  case (6 h node p)
  show ?case
    unfolding expr_loop.psimps [OF 6(1)] using 6(2-)
    by (fastforce split: if_splits sum.splits prod.splits dest: eat_size)
next
  case (7 h p)
  show ?case
    unfolding assignment.psimps [OF 7(1)] using 7(2-)
    by (fastforce split: if_splits sum.splits prod.splits dest: eat_size)
qed

definition parser_measure_size ::
  "(('x Host \<times> 'x Parser + 'x Host \<times> 'x Parser + 'x Host \<times> 'x Parser) +
    (('x Host \<times> 'x ASTNode \<times> 'x Parser + 'x Host \<times> 'x Parser) +
     ('x Host \<times> 'x ASTNode \<times> 'x Parser + 'x Host \<times> 'x Parser))) \<Rightarrow> nat" where
  "parser_measure_size =
     case_sum
       (case_sum (\<lambda>(h, p). psize p) (case_sum (\<lambda>(h, p). psize p) (\<lambda>(h, p). psize p)))
       (case_sum
          (case_sum (\<lambda>(h, n, p). psize p) (\<lambda>(h, p). psize p))
          (case_sum (\<lambda>(h, n, p). psize p) (\<lambda>(h, p). psize p)))"

definition parser_measure_rank ::
  "(('x Host \<times> 'x Parser + 'x Host \<times> 'x Parser + 'x Host \<times> 'x Parser) +
    (('x Host \<times> 'x ASTNode \<times> 'x Parser + 'x Host \<times> 'x Parser) +
     ('x Host \<times> 'x ASTNode \<times> 'x Parser + 'x Host \<times> 'x Parser))) \<Rightarrow> nat" where
  "parser_measure_rank =
     case_sum
       (case_sum (\<lambda>_. 0) (case_sum (\<lambda>_. 1) (\<lambda>_. 3)))
       (case_sum
          (case_sum (\<lambda>_. 2) (\<lambda>_. 5))
          (case_sum (\<lambda>_. 4) (\<lambda>_. 6)))"

termination factor
  apply (relation "measures [parser_measure_size, parser_measure_rank]")
  apply (auto simp: parser_measure_size_def parser_measure_rank_def
      dest!: eat_size parser_size_partial [rule_format] split: if_splits)
  done

lemmas parser_rules = factor.simps power_rule.simps term_rule.simps term_loop.simps
  expr.simps expr_loop.simps assignment.simps

declare parser_rules [simp del]

text \<open>
  \<^verbatim>\<open>parse\<close> (lines 295-297) is the entry point. \<open>parse_text\<close> is what every caller in
  the file does with a text: \<^verbatim>\<open>Parser(Lexer(text)).parse()\<close>.
\<close>

definition parse :: "'x Host \<Rightarrow> 'x Parser \<Rightarrow> 'x error + ('x ASTNode \<times> 'x Parser)" where
  "parse h p = assignment h p"

definition parse_text :: "'x Host \<Rightarrow> string \<Rightarrow> 'x error + ('x ASTNode \<times> 'x Parser)" where
  "parse_text h txt =
     (case Parser h (Lexer txt) of
        Inl e \<Rightarrow> Inl e
      | Inr p \<Rightarrow> parse h p)"


section \<open>Interpreter\<close>

text \<open>
  \<^verbatim>\<open>Interpreter\<close> (lines 300-355). Its state is the dictionary \<^verbatim>\<open>variables\<close>. A
  well-typed program only uses strings as keys; the map below keeps keys apart that
  Python's dictionary would identify (the int 1 and the float 1.0), which only a tree
  with a number as a variable's name can produce.
\<close>

type_synonym 'x variables = "'x pyval \<rightharpoonup> 'x pyval"

text \<open>
  The operators of \<^verbatim>\<open>visit_BinaryOp\<close> and \<^verbatim>\<open>visit_UnaryOp\<close> on values. On two
  ints, \<^verbatim>\<open>+\<close>, \<^verbatim>\<open>-\<close>, \<^verbatim>\<open>*\<close> and \<^verbatim>\<open>**\<close> with an exponent that is not negative
  are exact, and \<^verbatim>\<open>/\<close> by the int zero raises \<^verbatim>\<open>ZeroDivisionError\<close>; everything
  else is the host's.
\<close>

definition binary_op ::
  "'x Host \<Rightarrow> TokenType \<Rightarrow> 'x pyval \<Rightarrow> 'x pyval \<Rightarrow> 'x error + 'x pyval" where
  "binary_op h op a b =
     (case (a, b) of
        (PyInt x, PyInt y) \<Rightarrow>
          if op = PLUS then Inr (PyInt (x + y))
          else if op = MINUS then Inr (PyInt (x - y))
          else if op = MULTIPLY then Inr (PyInt (x * y))
          else if op = DIVIDE then
            (if y = 0 then Inl ZeroDivisionError else host_binop h op a b)
          else if op = POWER then
            (if 0 \<le> y then Inr (PyInt (x ^ nat y)) else host_binop h op a b)
          else host_binop h op a b
      | _ \<Rightarrow> host_binop h op a b)"

definition unary_op :: "'x Host \<Rightarrow> TokenType \<Rightarrow> 'x pyval \<Rightarrow> 'x error + 'x pyval" where
  "unary_op h op a =
     (case a of
        PyInt x \<Rightarrow>
          if op = PLUS then Inr (PyInt x)
          else if op = MINUS then Inr (PyInt (- x))
          else host_unop h op a
      | _ \<Rightarrow> host_unop h op a)"

text \<open>
  The attribute \<^verbatim>\<open>value\<close> of a node, which \<^verbatim>\<open>visit_Assign\<close> reads from its target:
  only \<^verbatim>\<open>Var\<close> and \<^verbatim>\<open>Num\<close> have it.
\<close>

definition value_attr :: "'x ASTNode \<Rightarrow> 'x pyval option" where
  "value_attr node = (case node of Var v \<Rightarrow> Some v | Num v \<Rightarrow> Some v | _ \<Rightarrow> None)"

text \<open>
  \<^verbatim>\<open>visit\<close> with the \<^verbatim>\<open>visit_\<close> methods it dispatches to, one equation each. The
  dictionary is returned with the result, also when an exception is raised: the
  interpreter object outlives the call. A \<^verbatim>\<open>BinaryOp\<close> or \<^verbatim>\<open>UnaryOp\<close> whose
  operator is none of those tested falls off the end of the method and returns
  \<^verbatim>\<open>None\<close> without visiting its children.
\<close>

fun visit :: "'x Host \<Rightarrow> 'x ASTNode \<Rightarrow> 'x variables \<Rightarrow> ('x error + 'x pyval) \<times> 'x variables" where
  "visit h (BinaryOp left op right) vars =
     (if type op = PLUS \<or> type op = MINUS \<or> type op = MULTIPLY \<or> type op = DIVIDE
         \<or> type op = POWER then
        (case visit h left vars of
           (Inl e, vars1) \<Rightarrow> (Inl e, vars1)
         | (Inr a, vars1) \<Rightarrow>
             (case visit h right vars1 of
                (Inl e, vars2) \<Rightarrow> (Inl e, vars2)
              | (Inr b, vars2) \<Rightarrow> (binary_op h (type op) a b, vars2)))
      else (Inr PyNone, vars))"
| "visit h (UnaryOp op e) vars =
     (if type op = PLUS \<or> type op = MINUS then
        (case visit h e vars of
           (Inl er, vars1) \<Rightarrow> (Inl er, vars1)
         | (Inr a, vars1) \<Rightarrow> (unary_op h (type op) a, vars1))
      else (Inr PyNone, vars))"
| "visit h (Num v) vars = (Inr v, vars)"
| "visit h (Var var_name) vars =
     (case vars var_name of
        Some v \<Rightarrow> (Inr v, vars)
      | None \<Rightarrow> (Inl (NameError var_name), vars))"
| "visit h (Assign left right) vars =
     (case value_attr left of
        None \<Rightarrow> (Inl AttributeError, vars)
      | Some var_name \<Rightarrow>
          (case visit h right vars of
             (Inl e, vars1) \<Rightarrow> (Inl e, vars1)
           | (Inr v, vars1) \<Rightarrow> (Inr v, vars1(var_name \<mapsto> v))))"
| "visit h ASTNode vars = (Inl NoVisitor, vars)"

text \<open>\<^verbatim>\<open>interpret\<close> (lines 353-355), here \<open>interpret_tree\<close>.\<close>

definition interpret_tree ::
  "'x Host \<Rightarrow> 'x ASTNode \<Rightarrow> 'x variables \<Rightarrow> ('x error + 'x pyval) \<times> 'x variables" where
  "interpret_tree h tree vars = visit h tree vars"

text \<open>
  What the callers in the file do with a text and an interpreter (lines 490-493): parse
  it, then interpret the tree. A lexer or parser error leaves the variables as they were.
\<close>

definition evaluate ::
  "'x Host \<Rightarrow> string \<Rightarrow> 'x variables \<Rightarrow> ('x error + 'x pyval) \<times> 'x variables" where
  "evaluate h txt vars =
     (case parse_text h txt of
        Inl e \<Rightarrow> (Inl e, vars)
      | Inr (tree, p) \<Rightarrow> interpret_tree h tree vars)"


section \<open>Vocabulary of the properties\<close>

text \<open>
  The definitions of this section are not code of the program: they say what the
  properties below are about.
\<close>

subsection \<open>Operator chains\<close>







text \<open>The text of an operator and the token the lexer makes of it.\<close>

fun op_text :: "TokenType \<Rightarrow> string" where
  "op_text PLUS = ''+''"
| "op_text MINUS = ''-''"
| "op_text MULTIPLY = ''*''"
| "op_text DIVIDE = ''/''"
| "op_text POWER = ''**''"
| "op_text ASSIGN = ''=''"
| "op_text LPAREN = ''(''"
| "op_text RPAREN = '')''"
| "op_text NUMBER = []"
| "op_text IDENTIFIER = []"
| "op_text EOF = []"

definition op_token :: "TokenType \<Rightarrow> 'x Token" where
  "op_token t = Token t (PyStr (op_text t))"

text \<open>
  The chain \<^verbatim>\<open>a op b1 op b2 ...\<close>: the first operand, then each further operand after
  the operator, with one space on each side of the operator.
\<close>

definition chain_rest :: "TokenType \<Rightarrow> string list \<Rightarrow> string" where
  "chain_rest t bs = concat (map (\<lambda>b. CHR '' '' # op_text t @ CHR '' '' # b) bs)"











subsection \<open>Shapes of trees\<close>

text \<open>Every assignment node of the tree has a variable as its left child.\<close>

fun assign_targets_are_vars :: "'x ASTNode \<Rightarrow> bool" where
  "assign_targets_are_vars (BinaryOp left op right) \<longleftrightarrow>
     assign_targets_are_vars left \<and> assign_targets_are_vars right"
| "assign_targets_are_vars (UnaryOp op e) \<longleftrightarrow> assign_targets_are_vars e"
| "assign_targets_are_vars (Num v) \<longleftrightarrow> True"
| "assign_targets_are_vars (Var v) \<longleftrightarrow> True"
| "assign_targets_are_vars (Assign left right) \<longleftrightarrow>
     isinstance_Var left \<and> assign_targets_are_vars left \<and> assign_targets_are_vars right"
| "assign_targets_are_vars ASTNode \<longleftrightarrow> True"

text \<open>The tree has no assignment node.\<close>

fun no_assign :: "'x ASTNode \<Rightarrow> bool" where
  "no_assign (BinaryOp left op right) \<longleftrightarrow> no_assign left \<and> no_assign right"
| "no_assign (UnaryOp op e) \<longleftrightarrow> no_assign e"
| "no_assign (Num v) \<longleftrightarrow> True"
| "no_assign (Var v) \<longleftrightarrow> True"
| "no_assign (Assign left right) \<longleftrightarrow> False"
| "no_assign ASTNode \<longleftrightarrow> True"

text \<open>
  The tree is a chain of assignments to variables that ends in a tree without
  assignments: the shape of every tree the parser builds.
\<close>

fun assign_chain :: "'x ASTNode \<Rightarrow> bool" where
  "assign_chain (Assign left right) \<longleftrightarrow> isinstance_Var left \<and> assign_chain right"
| "assign_chain (BinaryOp left op right) \<longleftrightarrow> no_assign left \<and> no_assign right"
| "assign_chain (UnaryOp op e) \<longleftrightarrow> no_assign e"
| "assign_chain (Num v) \<longleftrightarrow> True"
| "assign_chain (Var v) \<longleftrightarrow> True"
| "assign_chain ASTNode \<longleftrightarrow> True"

subsection \<open>Completed assignments\<close>

text \<open>
  The bindings written by the assignment nodes whose visit returned, in the order in
  which they returned, when the tree is visited with the given variables. A node is
  visited with the variables its predecessors left; the children of a node are visited
  as \<open>visit\<close> visits them (the right operand only when the left one returned, no child
  of an operator node that \<open>visit\<close> does not evaluate); an assignment whose value
  expression raises has not completed.
\<close>

fun completed_assignments ::
  "'x Host \<Rightarrow> 'x ASTNode \<Rightarrow> 'x variables \<Rightarrow> ('x pyval \<times> 'x pyval) list" where
  "completed_assignments h (BinaryOp left op right) vars =
     (if type op = PLUS \<or> type op = MINUS \<or> type op = MULTIPLY \<or> type op = DIVIDE
         \<or> type op = POWER then
        completed_assignments h left vars @
        (case visit h left vars of
           (Inl e, vars1) \<Rightarrow> []
         | (Inr a, vars1) \<Rightarrow> completed_assignments h right vars1)
      else [])"
| "completed_assignments h (UnaryOp op e) vars =
     (if type op = PLUS \<or> type op = MINUS then completed_assignments h e vars else [])"
| "completed_assignments h (Num v) vars = []"
| "completed_assignments h (Var v) vars = []"
| "completed_assignments h (Assign left right) vars =
     (case value_attr left of
        None \<Rightarrow> []
      | Some var_name \<Rightarrow>
          completed_assignments h right vars @
          (case visit h right vars of
             (Inl e, vars1) \<Rightarrow> []
           | (Inr v, vars1) \<Rightarrow> [(var_name, v)]))"
| "completed_assignments h ASTNode vars = []"

text \<open>Writing a list of bindings into the variables, in order.\<close>

definition store_all :: "'x variables \<Rightarrow> ('x pyval \<times> 'x pyval) list \<Rightarrow> 'x variables" where
  "store_all vars ws = foldl (\<lambda>m (k, v). m(k \<mapsto> v)) vars ws"


section \<open>Evaluation of concrete texts\<close>

lemmas lexer_eval = Lexer_def current_char_def advance_def isspace_def isdigit_def
  isalpha_def isalnum_def isdecimal_def py_int_def int_value_def number_def
  identifier_name_def get_next_token.simps skip_whitespace.simps number_scan.simps
  identifier_scan.simps

lemmas parser_eval = parse_text_def parse_def Parser_def eat_def isinstance_Var_def
  parser_rules

lemmas interpreter_eval = evaluate_def interpret_tree_def binary_op_def unary_op_def
  value_attr_def





section \<open>The lexer on blanks and operands\<close>

lemma skip_whitespace_Nil:
  "skip_whitespace \<lparr>rest = [], pos = k\<rparr> = \<lparr>rest = [], pos = k\<rparr>"
  by (simp add: skip_whitespace.simps [of "\<lparr>rest = [], pos = k\<rparr>"] current_char_def)

lemma skip_whitespace_Cons:
  "skip_whitespace \<lparr>rest = c # cs, pos = k\<rparr> =
     (if isspace c then skip_whitespace \<lparr>rest = cs, pos = k + 1\<rparr>
      else \<lparr>rest = c # cs, pos = k\<rparr>)"
  by (simp add: skip_whitespace.simps [of "\<lparr>rest = c # cs, pos = k\<rparr>"] current_char_def
      advance_def)





lemma get_next_token_Nil:
  "get_next_token h \<lparr>rest = [], pos = k\<rparr> = Inr (Token EOF PyNone, \<lparr>rest = [], pos = k\<rparr>)"
  by (simp add: get_next_token.simps [of h "\<lparr>rest = [], pos = k\<rparr>"] current_char_def)

lemma get_next_token_space:
  "isspace c \<Longrightarrow>
     get_next_token h \<lparr>rest = c # cs, pos = k\<rparr>
       = get_next_token h (skip_whitespace \<lparr>rest = cs, pos = k + 1\<rparr>)"
  by (simp add: get_next_token.simps [of h "\<lparr>rest = c # cs, pos = k\<rparr>"] current_char_def
      skip_whitespace_Cons)



lemma skip_whitespace_all:
  "list_all isspace s \<Longrightarrow>
     skip_whitespace \<lparr>rest = s, pos = k\<rparr> = \<lparr>rest = [], pos = k + length s\<rparr>"
proof (induction s arbitrary: k)
  case Nil
  show ?case by (simp add: skip_whitespace_Nil)
next
  case (Cons c cs)
  then have "skip_whitespace \<lparr>rest = cs, pos = k + 1\<rparr>
      = \<lparr>rest = [], pos = k + 1 + length cs\<rparr>"
    by simp
  with Cons.prems show ?case by (simp add: skip_whitespace_Cons)
qed

lemma get_next_token_blank:
  assumes "list_all isspace s"
  shows "get_next_token h \<lparr>rest = s, pos = 0\<rparr>
           = Inr (Token EOF PyNone, \<lparr>rest = [], pos = length s\<rparr>)"
proof (cases s)
  case Nil
  then show ?thesis by (simp add: get_next_token_Nil)
next
  case (Cons c cs)
  with assms have "isspace c" and "list_all isspace cs" by simp_all
  with Cons skip_whitespace_all [of cs 1] show ?thesis
    by (simp add: get_next_token_space get_next_token_Nil)
qed






lemma space_class [simp]:
  "isspace (CHR '' '')" "\<not> isdigit (CHR '' '')" "\<not> isalnum (CHR '' '')"
  "\<not> isalpha (CHR '' '')"
  by (simp_all add: isspace_def isdigit_def isalnum_def isalpha_def)

lemma underscore_class [simp]:
  "\<not> isspace (CHR ''_'')" "\<not> isdigit (CHR ''_'')" "\<not> isalpha (CHR ''_'')"
  by (simp_all add: isspace_def isdigit_def isalpha_def)











section \<open>The parser on chains\<close>

lemma chain_rest_simps [simp]:
  "chain_rest t [] = []"
  "chain_rest t (b # bs) = CHR '' '' # op_text t @ CHR '' '' # b @ chain_rest t bs"
  by (simp_all add: chain_rest_def)


lemma op_token_sel [simp]: "type (op_token t) = t" "val (op_token t) = PyStr (op_text t)"
  by (simp_all add: op_token_def)







lemma power_rule_step:
  "factor h p = Inr (node, p1) \<Longrightarrow> type (current_token p1) = POWER \<Longrightarrow>
     eat h p1 POWER = Inr p2 \<Longrightarrow> power_rule h p2 = Inr (r, p3) \<Longrightarrow>
     power_rule h p = Inr (BinaryOp node (current_token p1) r, p3)"
  by (simp add: power_rule.simps [of h p])

lemma power_rule_stop:
  "factor h p = Inr (node, p1) \<Longrightarrow> type (current_token p1) \<noteq> POWER \<Longrightarrow>
     power_rule h p = Inr (node, p1)"
  by (simp add: power_rule.simps [of h p])



lemma term_loop_step:
  "type (current_token p) = t \<Longrightarrow> t = MULTIPLY \<or> t = DIVIDE \<Longrightarrow>
     eat h p t = Inr p1 \<Longrightarrow> power_rule h p1 = Inr (r, p2) \<Longrightarrow>
     term_loop h node p = term_loop h (BinaryOp node (current_token p) r) p2"
  by (auto simp add: term_loop.simps [of h node p])

lemma expr_loop_step:
  "type (current_token p) = t \<Longrightarrow> t = PLUS \<or> t = MINUS \<Longrightarrow>
     eat h p t = Inr p1 \<Longrightarrow> term_rule h p1 = Inr (r, p2) \<Longrightarrow>
     expr_loop h node p = expr_loop h (BinaryOp node (current_token p) r) p2"
  by (auto simp add: expr_loop.simps [of h node p])

lemma term_loop_stop:
  "type (current_token p) \<noteq> MULTIPLY \<Longrightarrow> type (current_token p) \<noteq> DIVIDE \<Longrightarrow>
     term_loop h node p = Inr (node, p)"
  by (simp add: term_loop.simps [of h node p])

lemma expr_loop_stop:
  "type (current_token p) \<noteq> PLUS \<Longrightarrow> type (current_token p) \<noteq> MINUS \<Longrightarrow>
     expr_loop h node p = Inr (node, p)"
  by (simp add: expr_loop.simps [of h node p])

text \<open>
  Three operands of any form. Whatever \<^verbatim>\<open>factor\<close> parses as the operands of two
  \<^verbatim>\<open>**\<close> (numbers, variables, signed or parenthesised expressions, with any blanks
  between the tokens), \<^verbatim>\<open>power\<close> nests them to the right; whatever \<^verbatim>\<open>power\<close> parses
  as the operands of two operators among \<^verbatim>\<open>*\<close> and \<^verbatim>\<open>/\<close>, \<^verbatim>\<open>term\<close> nests them to
  the left, and so does \<^verbatim>\<open>expr\<close> with the operands \<^verbatim>\<open>term\<close> parses for \<^verbatim>\<open>+\<close> and
  \<^verbatim>\<open>-\<close>.
\<close>

lemma power_rule_three_factors:
  assumes "factor h p = Inr (a, p1)" "type (current_token p1) = POWER"
    and "eat h p1 POWER = Inr p2" "factor h p2 = Inr (b, p3)"
    and "type (current_token p3) = POWER" "eat h p3 POWER = Inr p4"
    and "factor h p4 = Inr (c, p5)" "type (current_token p5) \<noteq> POWER"
  shows "power_rule h p
           = Inr (BinaryOp a (current_token p1) (BinaryOp b (current_token p3) c), p5)"
proof -
  have "power_rule h p4 = Inr (c, p5)"
    by (rule power_rule_stop [OF assms(7, 8)])
  then have "power_rule h p2 = Inr (BinaryOp b (current_token p3) c, p5)"
    by (rule power_rule_step [OF assms(4, 5, 6)])
  then show ?thesis
    by (rule power_rule_step [OF assms(1, 2, 3)])
qed

lemma term_rule_three_powers:
  assumes "power_rule h p = Inr (a, p1)"
    and "type (current_token p1) = t1" "t1 = MULTIPLY \<or> t1 = DIVIDE" "eat h p1 t1 = Inr p2"
    and "power_rule h p2 = Inr (b, p3)"
    and "type (current_token p3) = t2" "t2 = MULTIPLY \<or> t2 = DIVIDE" "eat h p3 t2 = Inr p4"
    and "power_rule h p4 = Inr (c, p5)"
    and "type (current_token p5) \<noteq> MULTIPLY" "type (current_token p5) \<noteq> DIVIDE"
  shows "term_rule h p
           = Inr (BinaryOp (BinaryOp a (current_token p1) b) (current_token p3) c, p5)"
proof -
  have "term_loop h a p1 = term_loop h (BinaryOp a (current_token p1) b) p3"
    by (rule term_loop_step [OF assms(2, 3, 4, 5)])
  also have "\<dots> = term_loop h (BinaryOp (BinaryOp a (current_token p1) b) (current_token p3) c) p5"
    by (rule term_loop_step [OF assms(6, 7, 8, 9)])
  also have "\<dots> = Inr (BinaryOp (BinaryOp a (current_token p1) b) (current_token p3) c, p5)"
    by (rule term_loop_stop [OF assms(10, 11)])
  finally show ?thesis
    by (simp add: term_rule.simps [of h p] assms(1))
qed

lemma expr_three_terms:
  assumes "term_rule h p = Inr (a, p1)"
    and "type (current_token p1) = t1" "t1 = PLUS \<or> t1 = MINUS" "eat h p1 t1 = Inr p2"
    and "term_rule h p2 = Inr (b, p3)"
    and "type (current_token p3) = t2" "t2 = PLUS \<or> t2 = MINUS" "eat h p3 t2 = Inr p4"
    and "term_rule h p4 = Inr (c, p5)"
    and "type (current_token p5) \<noteq> PLUS" "type (current_token p5) \<noteq> MINUS"
  shows "expr h p
           = Inr (BinaryOp (BinaryOp a (current_token p1) b) (current_token p3) c, p5)"
proof -
  have "expr_loop h a p1 = expr_loop h (BinaryOp a (current_token p1) b) p3"
    by (rule expr_loop_step [OF assms(2, 3, 4, 5)])
  also have "\<dots> = expr_loop h (BinaryOp (BinaryOp a (current_token p1) b) (current_token p3) c) p5"
    by (rule expr_loop_step [OF assms(6, 7, 8, 9)])
  also have "\<dots> = Inr (BinaryOp (BinaryOp a (current_token p1) b) (current_token p3) c, p5)"
    by (rule expr_loop_stop [OF assms(10, 11)])
  finally show ?thesis
    by (simp add: expr.simps [of h p] assms(1))
qed











section \<open>The shape of parsed trees\<close>

lemma no_assign_assign_chain: "no_assign n \<Longrightarrow> assign_chain n"
  by (cases n) simp_all

lemma parser_shape:
  shows "\<forall>n p'. factor h p = Inr (n, p') \<longrightarrow> no_assign n"
    and "\<forall>n p'. power_rule h p = Inr (n, p') \<longrightarrow> no_assign n"
    and "\<forall>n p'. term_rule h p = Inr (n, p') \<longrightarrow> no_assign n"
    and "no_assign node \<longrightarrow> (\<forall>n p'. term_loop h node p = Inr (n, p') \<longrightarrow> no_assign n)"
    and "\<forall>n p'. expr h p = Inr (n, p') \<longrightarrow> no_assign n"
    and "no_assign node' \<longrightarrow> (\<forall>n p'. expr_loop h node' p = Inr (n, p') \<longrightarrow> no_assign n)"
    and "\<forall>n p'. assignment h p = Inr (n, p') \<longrightarrow> assign_chain n"
proof (induct h p and h p and h p and h node p and h p and h node' p and h p
    rule: factor_power_rule_term_rule_term_loop_expr_expr_loop_assignment.induct)
  case (1 h p)
  show ?case
    unfolding factor.simps [of h p] using 1
    by (fastforce split: if_splits sum.splits prod.splits)
next
  case (2 h p)
  show ?case
    unfolding power_rule.simps [of h p] using 2
    by (fastforce split: if_splits sum.splits prod.splits)
next
  case (3 h p)
  show ?case
    unfolding term_rule.simps [of h p] using 3
    by (fastforce split: if_splits sum.splits prod.splits)
next
  case (4 h node p)
  show ?case
    unfolding term_loop.simps [of h node p] using 4
    by (fastforce split: if_splits sum.splits prod.splits)
next
  case (5 h p)
  show ?case
    unfolding expr.simps [of h p] using 5
    by (fastforce split: if_splits sum.splits prod.splits)
next
  case (6 h node p)
  show ?case
    unfolding expr_loop.simps [of h node p] using 6
    by (fastforce split: if_splits sum.splits prod.splits)
next
  case (7 h p)
  show ?case
    unfolding assignment.simps [of h p] using 7
    by (fastforce split: if_splits sum.splits prod.splits dest: no_assign_assign_chain)
qed

lemma parse_text_shape: "parse_text h s = Inr (tree, p) \<Longrightarrow> assign_chain tree"
  using parser_shape(7)
  by (fastforce simp: parse_text_def parse_def split: sum.splits)

lemma no_assign_targets: "no_assign n \<Longrightarrow> assign_targets_are_vars n"
  by (induction n) simp_all

lemma assign_chain_targets: "assign_chain n \<Longrightarrow> assign_targets_are_vars n"
proof (induction n)
  case (Assign left right)
  then show ?case by (cases left) (simp_all add: isinstance_Var_def)
qed (simp_all add: no_assign_targets)


section \<open>The interpreter and the variables\<close>

lemma visit_no_assign_pair:
  "no_assign tree \<Longrightarrow> visit h tree vars = (r, vars') \<Longrightarrow> vars' = vars"
  by (induction tree arbitrary: vars r vars')
    (fastforce split: prod.splits sum.splits option.splits if_splits)+

lemma visit_no_assign: "no_assign tree \<Longrightarrow> snd (visit h tree vars) = vars"
  using visit_no_assign_pair [of tree h vars "fst (visit h tree vars)" "snd (visit h tree vars)"]
  by simp

lemma store_all_simps [simp]:
  "store_all vars [] = vars"
  "store_all vars (ws @ ws') = store_all (store_all vars ws) ws'"
  "store_all vars [(k, v)] = vars(k \<mapsto> v)"
  by (simp_all add: store_all_def)

lemma visit_completed_assignments_pair:
  "visit h tree vars = (r, vars') \<Longrightarrow>
     vars' = store_all vars (completed_assignments h tree vars)"
  by (induction tree arbitrary: vars r vars')
    (fastforce split: prod.splits sum.splits option.splits if_splits)+

lemma visit_completed_assignments:
  "snd (visit h tree vars) = store_all vars (completed_assignments h tree vars)"
  using visit_completed_assignments_pair
    [of h tree vars "fst (visit h tree vars)" "snd (visit h tree vars)"]
  by simp

lemma assign_chain_failure:
  "assign_chain tree \<Longrightarrow> visit h tree vars = (Inl e, vars') \<Longrightarrow> vars' = vars"
proof (induction tree arbitrary: vars vars' e)
  case (Assign left right)
  then show ?case
    by (cases left)
      (auto simp: isinstance_Var_def value_attr_def split: prod.splits sum.splits)
next
  case (BinaryOp left op right)
  then have "no_assign (BinaryOp left op right)" by simp
  from visit_no_assign_pair [OF this BinaryOp.prems(2)] show ?case .
next
  case (UnaryOp op e')
  then have "no_assign (UnaryOp op e')" by simp
  from visit_no_assign_pair [OF this UnaryOp.prems(2)] show ?case .
qed (auto split: option.splits)









section \<open>The entry point and unconsumed tokens\<close>

text \<open>
  C1, as stated, fails: on the text \<^verbatim>\<open>1 + 2 = 3\<close> the entry point raises nothing. It
  returns the tree of \<^verbatim>\<open>1 + 2\<close>; the \<^verbatim>\<open>=\<close> is the parser's current token and the
  lexer still holds \<^verbatim>\<open> 3\<close>.
\<close>

theorem parse_leftover_counterexample:
  "parse_text int_host ''1 + 2 = 3'' =
     Inr (BinaryOp (Num (PyInt 1)) (Token PLUS (PyStr ''+'')) (Num (PyInt 2)),
          \<lparr>lexer = \<lparr>rest = '' 3'', pos = 7\<rparr>,
           current_token = Token ASSIGN (PyStr ''='')\<rparr>)"
  by (simp add: lexer_eval parser_eval)

text \<open>
  C1, amended: \<^verbatim>\<open>parse\<close> is one run of the assignment rule and nothing more; it never
  looks at the token the rule leaves. On \<^verbatim>\<open>1 + 2 =\<close> followed by any text at all it
  returns the tree of \<^verbatim>\<open>1 + 2\<close> with \<^verbatim>\<open>=\<close> as the current token, and the text after
  the \<^verbatim>\<open>=\<close> is not even read by the lexer.
\<close>

theorem parse_ignores_leftover:
  "parse h p = assignment h p
   \<and> parse_text h (''1 + 2 ='' @ r) =
       Inr (BinaryOp (Num (PyInt 1)) (Token PLUS (PyStr ''+'')) (Num (PyInt 2)),
            \<lparr>lexer = \<lparr>rest = r, pos = 7\<rparr>, current_token = Token ASSIGN (PyStr ''='')\<rparr>)"
  by (simp add: lexer_eval parser_eval)


section \<open>Power is right-associative\<close>




section \<open>Addition, subtraction, multiplication and division are left-associative\<close>




section \<open>Unary minus and power\<close>

text \<open>
  C4 does not hold of the code: \<^verbatim>\<open>factor\<close> gives a sign another \<^verbatim>\<open>factor\<close> as its
  operand, so the text \<^verbatim>\<open>-2 ** 2\<close> parses to the tree of \<^verbatim>\<open>(-2) ** 2\<close>, whose root
  is the power node, and evaluates to 4.
\<close>

theorem unary_minus_power_actual:
  "parse_text h ''-2 ** 2'' =
     Inr (BinaryOp (UnaryOp (Token MINUS (PyStr ''-'')) (Num (PyInt 2)))
            (Token POWER (PyStr ''**'')) (Num (PyInt 2)),
          \<lparr>lexer = \<lparr>rest = [], pos = 7\<rparr>, current_token = Token EOF PyNone\<rparr>)
   \<and> evaluate h ''-2 ** 2'' vars = (Inr (PyInt 4), vars)"
  by (simp add: lexer_eval parser_eval interpreter_eval)


section \<open>Assignment\<close>

text \<open>
  C5: visiting an assignment to a variable visits the value expression first; when that
  raises, nothing is stored; otherwise the value is stored under the variable's name in
  the dictionary as the value expression left it, replacing any earlier binding, and is
  returned. The text \<^verbatim>\<open>c = b = a = 15\<close> parses to \<^verbatim>\<open>c = (b = (a = 15))\<close> and
  evaluates to 15, binding a, b and c to 15.
\<close>

theorem assignment_semantics:
  "visit h (Assign (Var name) e) vars =
     (case visit h e vars of
        (Inl er, vars1) \<Rightarrow> (Inl er, vars1)
      | (Inr v, vars1) \<Rightarrow> (Inr v, vars1(name \<mapsto> v)))
   \<and> parse_text h ''c = b = a = 15'' =
       Inr (Assign (Var (PyStr ''c''))
              (Assign (Var (PyStr ''b'')) (Assign (Var (PyStr ''a'')) (Num (PyInt 15)))),
            \<lparr>lexer = \<lparr>rest = [], pos = 14\<rparr>, current_token = Token EOF PyNone\<rparr>)
   \<and> evaluate h ''c = b = a = 15'' vars =
       (Inr (PyInt 15),
        vars(PyStr ''a'' \<mapsto> PyInt 15, PyStr ''b'' \<mapsto> PyInt 15, PyStr ''c'' \<mapsto> PyInt 15))"
  by (simp add: lexer_eval parser_eval interpreter_eval)

text \<open>
  C6: in every tree the parser returns, every assignment node has a variable as its left
  child. (The datatype of trees allows any node there.)
\<close>

theorem parser_assign_target_is_var:
  "parse_text h s = Inr (tree, p) \<Longrightarrow> assign_targets_are_vars tree"
  by (rule assign_chain_targets [OF parse_text_shape])

theorem parser_assign_target_is_var_witness:
  "parse_text int_host ''a = b = 1 + 2'' =
     Inr (Assign (Var (PyStr ''a''))
            (Assign (Var (PyStr ''b''))
               (BinaryOp (Num (PyInt 1)) (Token PLUS (PyStr ''+'')) (Num (PyInt 2)))),
          \<lparr>lexer = \<lparr>rest = [], pos = 13\<rparr>, current_token = Token EOF PyNone\<rparr>)
   \<and> assign_targets_are_vars
       (Assign (Var (PyStr ''a''))
          (Assign (Var (PyStr ''b''))
             (BinaryOp (Num (PyInt 1)) (Token PLUS (PyStr ''+'')) (Num (PyInt 2))))
        :: unit ASTNode)"
proof -
  have e: "parse_text int_host ''a = b = 1 + 2'' =
     Inr (Assign (Var (PyStr ''a''))
            (Assign (Var (PyStr ''b''))
               (BinaryOp (Num (PyInt 1)) (Token PLUS (PyStr ''+'')) (Num (PyInt 2)))),
          \<lparr>lexer = \<lparr>rest = [], pos = 13\<rparr>, current_token = Token EOF PyNone\<rparr>)"
    by (simp add: lexer_eval parser_eval)
  from parser_assign_target_is_var [OF e] e show ?thesis by simp
qed


section \<open>Variables\<close>

text \<open>
  C7: visiting a variable returns the value the dictionary holds for its name, and raises
  \<^verbatim>\<open>NameError\<close> with the name when the dictionary holds none; the dictionary is
  unchanged either way. The text \<^verbatim>\<open>x\<close> parses to the variable x, and with no
  variables its evaluation raises \<^verbatim>\<open>NameError\<close> for x.
\<close>

theorem variable_lookup:
  "visit h (Var name) vars =
     (case vars name of
        Some v \<Rightarrow> (Inr v, vars)
      | None \<Rightarrow> (Inl (NameError name), vars))
   \<and> parse_text h ''x'' =
       Inr (Var (PyStr ''x''),
            \<lparr>lexer = \<lparr>rest = [], pos = 1\<rparr>, current_token = Token EOF PyNone\<rparr>)
   \<and> evaluate h ''x'' Map.empty = (Inl (NameError (PyStr ''x'')), Map.empty)"
  by (simp add: lexer_eval parser_eval interpreter_eval)


section \<open>Failures and the variables\<close>

text \<open>
  C8: when the interpretation of a tree raises, the variables afterwards are the
  variables before with exactly the bindings of the completed assignments written, in
  the order of their completion: an assignment whose value expression raised wrote
  nothing, and what a completed assignment wrote stays. This holds of every tree, those
  the parser builds among them.
\<close>

theorem failure_keeps_completed_assignments:
  "fst (interpret_tree h tree vars) = Inl e \<Longrightarrow>
     snd (interpret_tree h tree vars) = store_all vars (completed_assignments h tree vars)"
  by (simp add: interpret_tree_def visit_completed_assignments)

text \<open>
  An instance: in \<^verbatim>\<open>c = ((a = 1) + b)\<close> with no variables, the assignment to a
  completes, then b is undefined; a is bound to 1 afterwards and c is not bound.
\<close>

theorem failure_keeps_completed_assignments_witness:
  "fst (interpret_tree int_host
          (Assign (Var (PyStr ''c''))
             (BinaryOp (Assign (Var (PyStr ''a'')) (Num (PyInt 1)))
                (Token PLUS (PyStr ''+'')) (Var (PyStr ''b''))))
          Map.empty)
     = Inl (NameError (PyStr ''b''))
   \<and> completed_assignments int_host
        (Assign (Var (PyStr ''c''))
           (BinaryOp (Assign (Var (PyStr ''a'')) (Num (PyInt 1)))
              (Token PLUS (PyStr ''+'')) (Var (PyStr ''b''))))
        Map.empty
     = [(PyStr ''a'', PyInt 1)]
   \<and> snd (interpret_tree int_host
          (Assign (Var (PyStr ''c''))
             (BinaryOp (Assign (Var (PyStr ''a'')) (Num (PyInt 1)))
                (Token PLUS (PyStr ''+'')) (Var (PyStr ''b''))))
          Map.empty)
     = [PyStr ''a'' \<mapsto> PyInt 1]"
  using failure_keeps_completed_assignments
    [of int_host
      "Assign (Var (PyStr ''c''))
         (BinaryOp (Assign (Var (PyStr ''a'')) (Num (PyInt 1)))
            (Token PLUS (PyStr ''+'')) (Var (PyStr ''b'')))"
      Map.empty "NameError (PyStr ''b'')"]
  by (simp add: interpreter_eval)

text \<open>
  The trees the parser builds are chains of assignments around one expression without
  assignments, so that no assignment of such a tree completes before a failure: when the
  interpretation of a parsed tree raises, the variables are unchanged.
\<close>

theorem parsed_failure_changes_nothing:
  "parse_text h s = Inr (tree, p) \<Longrightarrow> fst (interpret_tree h tree vars) = Inl e \<Longrightarrow>
     snd (interpret_tree h tree vars) = vars"
proof -
  assume a: "parse_text h s = Inr (tree, p)"
    and f: "fst (interpret_tree h tree vars) = Inl e"
  from a have "assign_chain tree" by (rule parse_text_shape)
  moreover from f have "visit h tree vars = (Inl e, snd (visit h tree vars))"
    by (simp add: interpret_tree_def prod_eq_iff)
  ultimately show ?thesis
    by (simp add: interpret_tree_def assign_chain_failure)
qed

theorem parsed_failure_changes_nothing_witness:
  "parse_text int_host ''a = b = c + 1''
     = Inr (Assign (Var (PyStr ''a''))
              (Assign (Var (PyStr ''b''))
                 (BinaryOp (Var (PyStr ''c'')) (Token PLUS (PyStr ''+'')) (Num (PyInt 1)))),
            \<lparr>lexer = \<lparr>rest = [], pos = 13\<rparr>, current_token = Token EOF PyNone\<rparr>)
   \<and> fst (interpret_tree int_host
            (Assign (Var (PyStr ''a''))
               (Assign (Var (PyStr ''b''))
                  (BinaryOp (Var (PyStr ''c'')) (Token PLUS (PyStr ''+'')) (Num (PyInt 1)))))
            [PyStr ''a'' \<mapsto> PyInt 7])
       = Inl (NameError (PyStr ''c''))
   \<and> snd (interpret_tree int_host
            (Assign (Var (PyStr ''a''))
               (Assign (Var (PyStr ''b''))
                  (BinaryOp (Var (PyStr ''c'')) (Token PLUS (PyStr ''+'')) (Num (PyInt 1)))))
            [PyStr ''a'' \<mapsto> PyInt 7])
       = [PyStr ''a'' \<mapsto> PyInt 7]"
proof -
  have e: "parse_text int_host ''a = b = c + 1''
     = Inr (Assign (Var (PyStr ''a''))
              (Assign (Var (PyStr ''b''))
                 (BinaryOp (Var (PyStr ''c'')) (Token PLUS (PyStr ''+'')) (Num (PyInt 1)))),
            \<lparr>lexer = \<lparr>rest = [], pos = 13\<rparr>, current_token = Token EOF PyNone\<rparr>)"
    by (simp add: lexer_eval parser_eval)
  have f: "fst (interpret_tree int_host
            (Assign (Var (PyStr ''a''))
               (Assign (Var (PyStr ''b''))
                  (BinaryOp (Var (PyStr ''c'')) (Token PLUS (PyStr ''+'')) (Num (PyInt 1)))))
            [PyStr ''a'' \<mapsto> PyInt 7])
       = Inl (NameError (PyStr ''c''))"
    by (simp add: interpreter_eval)
  from parsed_failure_changes_nothing [OF e f] e f show ?thesis by simp
qed


section \<open>Trees without assignments\<close>

text \<open>
  C9: interpreting a tree without assignment nodes leaves the variables unchanged, and
  interpreting it again with the variables the first run left gives the same result and
  the same variables.
\<close>

theorem no_assign_idempotent:
  "no_assign tree \<Longrightarrow>
     snd (interpret_tree h tree vars) = vars
     \<and> interpret_tree h tree (snd (interpret_tree h tree vars)) = interpret_tree h tree vars"
  by (simp add: interpret_tree_def visit_no_assign)

theorem no_assign_idempotent_witness:
  "no_assign (BinaryOp (Var (PyStr ''x'')) (Token PLUS (PyStr ''+'')) (Num (PyInt 1))
              :: unit ASTNode)
   \<and> interpret_tree int_host
        (BinaryOp (Var (PyStr ''x'')) (Token PLUS (PyStr ''+'')) (Num (PyInt 1)))
        [PyStr ''x'' \<mapsto> PyInt 2]
       = (Inr (PyInt 3), [PyStr ''x'' \<mapsto> PyInt 2])
   \<and> interpret_tree int_host
        (BinaryOp (Var (PyStr ''x'')) (Token PLUS (PyStr ''+'')) (Num (PyInt 1)))
        (snd (interpret_tree int_host
           (BinaryOp (Var (PyStr ''x'')) (Token PLUS (PyStr ''+'')) (Num (PyInt 1)))
           [PyStr ''x'' \<mapsto> PyInt 2]))
       = (Inr (PyInt 3), [PyStr ''x'' \<mapsto> PyInt 2])"
  using no_assign_idempotent
    [of "BinaryOp (Var (PyStr ''x'')) (Token PLUS (PyStr ''+'')) (Num (PyInt 1))"
      int_host "[PyStr ''x'' \<mapsto> PyInt 2]"]
  by (simp add: interpreter_eval)


section \<open>Blank input\<close>

text \<open>
  C10: on a text of whitespace characters only, the empty text among them, the lexer
  returns the \<^verbatim>\<open>EOF\<close> token, and returns it again whenever it is asked; the parser
  is constructed with that token, \<^verbatim>\<open>factor\<close> meets it where an operand has to start,
  and parsing raises the error of an unexpected token, carrying the \<^verbatim>\<open>EOF\<close> token.
\<close>

theorem blank_input:
  "list_all isspace s \<Longrightarrow>
     get_next_token h (Lexer s) = Inr (Token EOF PyNone, \<lparr>rest = [], pos = length s\<rparr>)
     \<and> get_next_token h \<lparr>rest = [], pos = length s\<rparr>
         = Inr (Token EOF PyNone, \<lparr>rest = [], pos = length s\<rparr>)
     \<and> Parser h (Lexer s)
         = Inr \<lparr>lexer = \<lparr>rest = [], pos = length s\<rparr>, current_token = Token EOF PyNone\<rparr>
     \<and> factor h \<lparr>lexer = \<lparr>rest = [], pos = length s\<rparr>, current_token = Token EOF PyNone\<rparr>
         = Inl (ParseError (Token EOF PyNone))
     \<and> parse_text h s = Inl (ParseError (Token EOF PyNone))"
  by (simp add: Lexer_def get_next_token_blank get_next_token_Nil parser_eval)

theorem blank_input_witness:
  "list_all isspace [CHR '' '', CHR 0x09, CHR 0x0A]
   \<and> get_next_token int_host (Lexer [CHR '' '', CHR 0x09, CHR 0x0A])
       = Inr (Token EOF PyNone, \<lparr>rest = [], pos = 3\<rparr>)
   \<and> parse_text int_host [CHR '' '', CHR 0x09, CHR 0x0A]
       = Inl (ParseError (Token EOF PyNone))
   \<and> parse_text int_host [] = Inl (ParseError (Token EOF PyNone))"
  using blank_input [of "[CHR '' '', CHR 0x09, CHR 0x0A]" int_host]
    blank_input [of "[]" int_host]
  by (simp add: isspace_def)


section \<open>Further scenarios\<close>

text \<open>
  Mixed precedence, division by zero, a text that ends where an operand is due, and a
  character the lexer does not know, which is reported with its position.
\<close>

theorem scenarios:
  "evaluate h ''1 + 2 * 3 ** 2 - 4'' vars = (Inr (PyInt 15), vars)
   \<and> evaluate h ''5 / 0'' vars = (Inl ZeroDivisionError, vars)
   \<and> evaluate h ''2 +'' vars = (Inl (ParseError (Token EOF PyNone)), vars)
   \<and> evaluate h ''2 @ 3'' vars = (Inl (LexError 2), vars)"
  by (simp add: lexer_eval parser_eval interpreter_eval)

end
